theory Spec2Isabelle
  imports Main
begin

section \<open>Values shared by the whole package\<close>

text \<open>
  A Go \<open>error\<close> is identified with its message; \<open>errors.New\<close> builds one and the method
  \<open>Error()\<close> reads the message back. A returned \<open>nil\<close> error is \<open>None\<close>.
  Go's \<open>int\<close> is modelled by \<open>int\<close>: the only arithmetic of the package is the byte counter
  of the access log, which stays far below the platform's largest \<open>int\<close>.
\<close>

datatype error = errors_New string

fun Error :: "error \<Rightarrow> string" where
  "Error (errors_New msg) = msg"

text \<open>A run-time panic of the Go program: calling through a nil interface or a nil func.\<close>

datatype panic = NilDereference

definition StatusOK :: int where "StatusOK = 200"
definition StatusMultipleChoices :: int where "StatusMultipleChoices = 300"
definition StatusTemporaryRedirect :: int where "StatusTemporaryRedirect = 307"
definition StatusInternalServerError :: int where "StatusInternalServerError = 500"

section \<open>The response writer interface\<close>

text \<open>
  \<open>http.ResponseWriter\<close> is an interface value: a bundle of methods acting on the part
  \<open>'s\<close> of the world the handlers can change. \<open>Header_Set k v\<close> stands for
  \<open>Header().Set(k, v)\<close>; \<open>Write\<close> returns the pair (bytes written, error) of the Go method.
\<close>

record 's ResponseWriter =
  Header_Set :: "string \<Rightarrow> string \<Rightarrow> 's \<Rightarrow> 's"
  WriteHeader :: "int \<Rightarrow> 's \<Rightarrow> 's"
  Write :: "string \<Rightarrow> 's \<Rightarrow> (int \<times> error option) \<times> 's"

text \<open>One method call on a response writer, and a sequence of them performed in order.\<close>

datatype rw_call = CallHeaderSet string string | CallWriteHeader int | CallWrite string

fun perform :: "'s ResponseWriter \<Rightarrow> rw_call \<Rightarrow> 's \<Rightarrow> 's" where
  "perform rw (CallHeaderSet k v) s = Header_Set rw k v s"
| "perform rw (CallWriteHeader code) s = WriteHeader rw code s"
| "perform rw (CallWrite p) s = snd (Write rw p s)"

fun run_calls :: "'s ResponseWriter \<Rightarrow> rw_call list \<Rightarrow> 's \<Rightarrow> 's" where
  "run_calls rw [] s = s"
| "run_calls rw (c # cs) s = run_calls rw cs (perform rw c s)"

text \<open>
  A concrete writer for the examples, after \<open>httptest.ResponseRecorder\<close>: the first
  \<open>WriteHeader\<close> commits the status and the headers set so far, a \<open>Write\<close> before any
  \<open>WriteHeader\<close> commits status 200, and every \<open>Write\<close> appends to the body and reports
  the whole slice as written.
\<close>

record recorder =
  HeaderMap :: "(string \<times> string) list"
  wroteHeader :: bool
  Code :: int
  sentHeader :: "(string \<times> string) list"
  Body :: string

definition new_recorder :: recorder where
  "new_recorder = \<lparr>HeaderMap = [], wroteHeader = False, Code = 0, sentHeader = [], Body = []\<rparr>"

definition recorder_WriteHeader :: "int \<Rightarrow> recorder \<Rightarrow> recorder" where
  "recorder_WriteHeader code r =
     (if wroteHeader r then r
      else r\<lparr>wroteHeader := True, Code := code, sentHeader := HeaderMap r\<rparr>)"

definition recorder_Write :: "string \<Rightarrow> recorder \<Rightarrow> (int \<times> error option) \<times> recorder" where
  "recorder_Write p r =
     (let r1 = (if wroteHeader r then r else recorder_WriteHeader StatusOK r)
      in ((int (length p), None), r1\<lparr>Body := Body r1 @ p\<rparr>))"

definition recorder_rw :: "recorder ResponseWriter" where
  "recorder_rw =
     \<lparr>Header_Set = (\<lambda>k v r. r\<lparr>HeaderMap := (k, v) # filter (\<lambda>kv. fst kv \<noteq> k) (HeaderMap r)\<rparr>),
      WriteHeader = recorder_WriteHeader,
      Write = recorder_Write\<rparr>"

section \<open>Context, Handler and the Weavebox struct\<close>

text \<open>
  \<open>context.Context\<close> values are opaque to the package; \<open>context.Background()\<close> is the one
  it creates itself. \<open>http.Request\<close> keeps the fields the package reads.
\<close>

datatype context_Context = context_Background | context_Other nat

record Request =
  Method :: string
  RequestURI :: string
  Proto :: string
  Host :: string

text \<open>
  The \<open>Renderer\<close> interface has the single method \<open>Render(w, name, data)\<close>; \<open>'d\<close> is the
  \<open>interface{}\<close> data handed to it.
\<close>

type_synonym ('d, 's) Renderer = "'s ResponseWriter \<Rightarrow> string \<Rightarrow> 'd \<Rightarrow> 's \<Rightarrow> error option \<times> 's"

text \<open>
  The struct \<open>Context\<close>. Its field \<open>weavebox\<close> is a pointer back to the application, which
  the package follows only in \<open>Render\<close>, to reach \<open>templateEngine\<close>; a HOL record cannot
  contain the application (whose handlers take a Context), so the field holds what the
  pointer is followed for.
\<close>

record ('d, 's) Context =
  Context :: context_Context
  response :: "'s ResponseWriter"
  request :: Request
  vars :: "(string \<times> string) list"
  weavebox_templateEngine :: "('d, 's) Renderer option"

type_synonym ('d, 's) Handler = "('d, 's) Context \<Rightarrow> 's \<Rightarrow> error option \<times> 's"

type_synonym ('d, 's) ErrorHandlerFunc = "('d, 's) Context \<Rightarrow> error \<Rightarrow> 's \<Rightarrow> 's"

text \<open>
  A Go slice is a header (backing array, length, capacity); the backing arrays live in a
  store, so that two headers can share one array. A cell of an array that was never
  written holds the zero value \<open>None\<close> (a nil func). The nil slice has length and
  capacity 0.
\<close>

record slice =
  Data :: nat
  Len :: nat
  Cap :: nat

definition nil_slice :: slice where
  "nil_slice = \<lparr>Data = 0, Len = 0, Cap = 0\<rparr>"

datatype io_Writer = os_Stderr | io_Other nat

type_synonym ('d, 's) route = "string \<times> string \<times> ('d, 's) Handler"

text \<open>
  The store: the backing arrays of all middleware slices, and the route table of every
  \<open>httprouter.Router\<close>; an address is an index. The router is an external
  collaborator: registering a route is recorded as (method, path, terminal handler), in
  registration order.
\<close>

record ('d, 's) heap =
  arrays :: "('d, 's) Handler option list list"
  routers :: "('d, 's) route list list"

definition empty_heap :: "('d, 's) heap" where
  "empty_heap = \<lparr>arrays = [], routers = []\<rparr>"

record ('d, 's) Weavebox =
  ErrorHandler :: "('d, 's) ErrorHandlerFunc"
  NotFoundHandler :: "('s ResponseWriter \<Rightarrow> Request \<Rightarrow> 's \<Rightarrow> 's) option"
  Output :: io_Writer
  EnableLog :: bool
  templateEngine :: "('d, 's) Renderer option"
  router :: nat
  middleware :: slice
  prefix :: string
  w_context :: "context_Context option"

text \<open>
  The field \<open>context\<close> of the struct is named \<open>w_context\<close> above.
  \<open>Box\<close> embeds a \<open>Weavebox\<close> by value.
\<close>

datatype ('d, 's) Box = Box (Weavebox_of: "('d, 's) Weavebox")

section \<open>Slices\<close>

definition array_at :: "'a list list \<Rightarrow> nat \<Rightarrow> 'a list" where
  "array_at M p = (if p < length M then M ! p else [])"

text \<open>The elements a slice header shows: the first \<open>Len\<close> cells of its backing array.\<close>

definition slice_elems :: "'a option list list \<Rightarrow> slice \<Rightarrow> 'a option list" where
  "slice_elems M sl = take (Len sl) (array_at M (Data sl))"

text \<open>
  The builtin \<open>append(s, x)\<close> for one element. With spare capacity the element is written
  into the backing array in place, at index \<open>Len\<close>; otherwise a new array is allocated,
  the elements are copied and the remaining cells are zero. Go guarantees the new array
  is large enough; how much larger is the run-time's choice, the parameter \<open>growcap\<close>
  (old capacity, needed length).
\<close>

definition append_slice ::
  "(nat \<Rightarrow> nat \<Rightarrow> nat) \<Rightarrow> 'a option list list \<Rightarrow> slice \<Rightarrow> 'a \<Rightarrow> 'a option list list \<times> slice" where
  "append_slice growcap M sl x =
     (if Len sl < Cap sl
      then (M[Data sl := (array_at M (Data sl))[Len sl := Some x]], sl\<lparr>Len := Len sl + 1\<rparr>)
      else (let newcap = max (Len sl + 1) (growcap (Cap sl) (Len sl + 1));
                a = slice_elems M sl @ [Some x] @ replicate (newcap - (Len sl + 1)) None
            in (M @ [a], \<lparr>Data = length M, Len = Len sl + 1, Cap = newcap\<rparr>)))"

text \<open>
  The growth of the gc run-time for the small slices of this package: the capacity
  doubles, unless the needed length is larger still.
\<close>

definition go_growcap :: "nat \<Rightarrow> nat \<Rightarrow> nat" where
  "go_growcap oldcap needed = (if oldcap + oldcap < needed then needed else oldcap + oldcap)"

text \<open>A slice header is well formed in a store when its array is there and has its capacity.\<close>

definition wf_slice :: "'a option list list \<Rightarrow> slice \<Rightarrow> bool" where
  "wf_slice M sl \<longleftrightarrow>
     Len sl \<le> Cap sl \<and> (0 < Cap sl \<longrightarrow> Data sl < length M \<and> length (M ! Data sl) = Cap sl)"

section \<open>Application and subrouter lifecycle\<close>

text \<open>
  \<open>http.Error\<close> belongs to the standard library and is a parameter: \<open>http_Error rw msg code\<close>
  replies on \<open>rw\<close> with the message and the status code.
\<close>

type_synonym 's http_Error_fn = "'s ResponseWriter \<Rightarrow> string \<Rightarrow> int \<Rightarrow> 's \<Rightarrow> 's"

definition defaultErrorHandler :: "'s http_Error_fn \<Rightarrow> ('d, 's) ErrorHandlerFunc" where
  "defaultErrorHandler http_Error ctx err =
     http_Error (response ctx) (Error err) StatusInternalServerError"

text \<open>\<open>New\<close>: \<open>httprouter.New()\<close> allocates a router with no routes; the fields not listed in
  the composite literal keep their zero values.\<close>

definition New :: "'s http_Error_fn \<Rightarrow> ('d, 's) heap \<Rightarrow> ('d, 's) Weavebox \<times> ('d, 's) heap" where
  "New http_Error \<sigma> =
     (\<lparr>ErrorHandler = defaultErrorHandler http_Error,
       NotFoundHandler = None,
       Output = os_Stderr,
       EnableLog = True,
       templateEngine = None,
       router = length (routers \<sigma>),
       middleware = nil_slice,
       prefix = [],
       w_context = None\<rparr>,
      \<sigma>\<lparr>routers := routers \<sigma> @ [[]]\<rparr>)"

text \<open>\<open>Use\<close>: the loop appends the handlers one by one to \<open>w.middleware\<close>.\<close>

fun Use ::
  "(nat \<Rightarrow> nat \<Rightarrow> nat) \<Rightarrow> ('d, 's) Weavebox \<Rightarrow> ('d, 's) Handler list \<Rightarrow> ('d, 's) heap
     \<Rightarrow> ('d, 's) Weavebox \<times> ('d, 's) heap" where
  "Use growcap w [] \<sigma> = (w, \<sigma>)"
| "Use growcap w (h # handlers) \<sigma> =
     (case append_slice growcap (arrays \<sigma>) (middleware w) h of
        (M, sl) \<Rightarrow> Use growcap (w\<lparr>middleware := sl\<rparr>) handlers (\<sigma>\<lparr>arrays := M\<rparr>))"

text \<open>A sequence of calls of \<open>Use\<close> on the same application, each with its own arguments.\<close>

fun Use_calls ::
  "(nat \<Rightarrow> nat \<Rightarrow> nat) \<Rightarrow> ('d, 's) Weavebox \<Rightarrow> ('d, 's) Handler list list \<Rightarrow> ('d, 's) heap
     \<Rightarrow> ('d, 's) Weavebox \<times> ('d, 's) heap" where
  "Use_calls growcap w [] \<sigma> = (w, \<sigma>)"
| "Use_calls growcap w (hs # calls) \<sigma> =
     (case Use growcap w hs \<sigma> of (w1, \<sigma>1) \<Rightarrow> Use_calls growcap w1 calls \<sigma>1)"

text \<open>\<open>Subrouter\<close> copies the struct (slice header included) and extends the copy's prefix.\<close>

definition Subrouter :: "('d, 's) Weavebox \<Rightarrow> string \<Rightarrow> ('d, 's) Box" where
  "Subrouter w pfx = Box (w\<lparr>prefix := prefix w @ pfx\<rparr>)"


definition Reset :: "('d, 's) Box \<Rightarrow> ('d, 's) Box" where
  "Reset b = Box ((Weavebox_of b)\<lparr>middleware := nil_slice\<rparr>)"

definition SetTemplateEngine :: "('d, 's) Weavebox \<Rightarrow> ('d, 's) Renderer option \<Rightarrow> ('d, 's) Weavebox" where
  "SetTemplateEngine w t = w\<lparr>templateEngine := t\<rparr>"

definition BindContext :: "('d, 's) Weavebox \<Rightarrow> context_Context option \<Rightarrow> ('d, 's) Weavebox" where
  "BindContext w ctx = w\<lparr>w_context := ctx\<rparr>"


section \<open>Route registration\<close>

text \<open>
  \<open>path.Join\<close> and \<open>path.Clean\<close> of the standard library, on the path elements between
  slashes: empty elements and \<open>.\<close> are dropped, \<open>..\<close> removes the element before it (or is
  dropped at the root, or kept at the front of a relative path), the elements are joined
  by single slashes, and the empty result is \<open>.\<close>.
\<close>

fun split_slash :: "string \<Rightarrow> string list" where
  "split_slash [] = [[]]"
| "split_slash (x # xs) =
     (if x = CHR ''/'' then [] # split_slash xs
      else (case split_slash xs of [] \<Rightarrow> [[x]] | ys # yss \<Rightarrow> (x # ys) # yss))"

fun join_slash :: "string list \<Rightarrow> string" where
  "join_slash [] = []"
| "join_slash [e] = e"
| "join_slash (e # es) = e @ CHR ''/'' # join_slash es"

definition clean_step :: "bool \<Rightarrow> string list \<Rightarrow> string \<Rightarrow> string list" where
  "clean_step rooted out seg =
     (if seg = [] \<or> seg = ''.'' then out
      else if seg = ''..'' then
        (if out \<noteq> [] \<and> last out \<noteq> ''..'' then butlast out
         else if rooted then out else out @ [seg])
      else out @ [seg])"

definition path_Clean :: "string \<Rightarrow> string" where
  "path_Clean p =
     (case p of
        [] \<Rightarrow> ''.''
      | c # _ \<Rightarrow>
          (let rooted = (c = CHR ''/'');
               body = join_slash (foldl (clean_step rooted) [] (split_slash p))
           in if rooted then CHR ''/'' # body else if body = [] then ''.'' else body))"

fun join_buf :: "string \<Rightarrow> string list \<Rightarrow> string" where
  "join_buf buf [] = buf"
| "join_buf buf (e # es) =
     (if buf \<noteq> [] \<or> e \<noteq> []
      then join_buf ((if buf \<noteq> [] then buf @ ''/'' else buf) @ e) es
      else join_buf buf es)"

definition path_Join :: "string list \<Rightarrow> string" where
  "path_Join elem = (if concat elem = [] then [] else path_Clean (join_buf [] elem))"



text \<open>
  \<open>router.Handle(method, path, handle)\<close> on the router at address \<open>a\<close>. The handle is the
  closure \<open>w.makeHTTPRouterHandle(h)\<close>; the table keeps the handler \<open>h\<close> it closes over.
\<close>

definition router_Handle ::
  "nat \<Rightarrow> string \<Rightarrow> string \<Rightarrow> ('d, 's) Handler \<Rightarrow> ('d, 's) heap \<Rightarrow> ('d, 's) heap" where
  "router_Handle a method path h \<sigma> =
     \<sigma>\<lparr>routers := (routers \<sigma>)[a := array_at (routers \<sigma>) a @ [(method, path, h)]]\<rparr>"

definition add ::
  "('d, 's) Weavebox \<Rightarrow> string \<Rightarrow> string \<Rightarrow> ('d, 's) Handler \<Rightarrow> ('d, 's) heap \<Rightarrow> ('d, 's) heap" where
  "add w method route h \<sigma> =
     (let path = path_Join [prefix w, route] in router_Handle (router w) method path h \<sigma>)"





section \<open>The dispatch entry point\<close>

text \<open>
  What the closure returned by \<open>makeHTTPRouterHandle\<close> does is recorded call by call:
  \<open>Invoked f\<close> for a call of the handler \<open>f\<close>, \<open>ErrorHandled e\<close> for a call of
  \<open>w.ErrorHandler\<close> with the failure \<open>e\<close>.
\<close>

datatype ('d, 's) event = Invoked "('d, 's) Handler" | ErrorHandled error

text \<open>
  The loop over \<open>w.middleware\<close>. The flag of the result tells whether the closure has
  returned from inside the loop (after the error handler). Calling a nil cell panics.
\<close>

fun range_middleware ::
  "('d, 's) ErrorHandlerFunc \<Rightarrow> ('d, 's) Context \<Rightarrow> ('d, 's) Handler option list
     \<Rightarrow> 's \<times> ('d, 's) event list \<Rightarrow> panic + (bool \<times> 's \<times> ('d, 's) event list)" where
  "range_middleware eh ctx [] (s, tr) = Inr (False, s, tr)"
| "range_middleware eh ctx (None # rest) (s, tr) = Inl NilDereference"
| "range_middleware eh ctx (Some handler # rest) (s, tr) =
     (case handler ctx s of
        (Some err, s') \<Rightarrow> Inr (True, eh ctx err s', tr @ [Invoked handler, ErrorHandled err])
      | (None, s') \<Rightarrow> range_middleware eh ctx rest (s', tr @ [Invoked handler]))"

text \<open>
  The closure reads \<open>w\<close> through its pointer when the request arrives, so the model takes
  the application as it is then, and returns it with \<open>context\<close> set. Handlers act on the
  world \<open>'s\<close> and do not reach the application or the store.
\<close>

definition new_Context ::
  "('d, 's) Weavebox \<Rightarrow> 's ResponseWriter \<Rightarrow> Request \<Rightarrow> (string \<times> string) list \<Rightarrow> ('d, 's) Context" where
  "new_Context w rw r params =
     \<lparr>Context = (case w_context w of None \<Rightarrow> context_Background | Some c \<Rightarrow> c),
      response = rw, request = r, vars = params,
      weavebox_templateEngine = templateEngine w\<rparr>"

definition makeHTTPRouterHandle ::
  "('d, 's) Weavebox \<Rightarrow> ('d, 's) Handler \<Rightarrow> ('d, 's) heap \<Rightarrow> 's ResponseWriter \<Rightarrow> Request
     \<Rightarrow> (string \<times> string) list \<Rightarrow> 's
     \<Rightarrow> panic + (('d, 's) Weavebox \<times> 's \<times> ('d, 's) event list)" where
  "makeHTTPRouterHandle w h \<sigma> rw r params s =
     (let w1 = (case w_context w of None \<Rightarrow> w\<lparr>w_context := Some context_Background\<rparr> | Some c \<Rightarrow> w);
          ctx = new_Context w1 rw r params
      in case range_middleware (ErrorHandler w1) ctx (slice_elems (arrays \<sigma>) (middleware w1)) (s, []) of
           Inl p \<Rightarrow> Inl p
         | Inr (True, s', tr) \<Rightarrow> Inr (w1, s', tr)
         | Inr (False, s', tr) \<Rightarrow>
             (case h ctx s' of
                (Some err, s'') \<Rightarrow> Inr (w1, ErrorHandler w1 ctx err s'', tr @ [Invoked h, ErrorHandled err])
              | (None, s'') \<Rightarrow> Inr (w1, s'', tr @ [Invoked h])))"

text \<open>
  For the statements: handlers run one after the other on the world, as long as each
  returns nil; \<open>None\<close> when one of them fails.
\<close>

fun succeed_in_order :: "('d, 's) Context \<Rightarrow> ('d, 's) Handler list \<Rightarrow> 's \<Rightarrow> 's option" where
  "succeed_in_order ctx [] s = Some s"
| "succeed_in_order ctx (f # fs) s =
     (case f ctx s of (None, s') \<Rightarrow> succeed_in_order ctx fs s' | (Some err, s') \<Rightarrow> None)"

fun error_handler_calls :: "('d, 's) event list \<Rightarrow> nat" where
  "error_handler_calls [] = 0"
| "error_handler_calls (Invoked f # tr) = error_handler_calls tr"
| "error_handler_calls (ErrorHandled e # tr) = Suc (error_handler_calls tr)"

definition trace_of ::
  "panic + (('d, 's) Weavebox \<times> 's \<times> ('d, 's) event list) \<Rightarrow> ('d, 's) event list" where
  "trace_of x = (case x of Inl p \<Rightarrow> [] | Inr (w, s, tr) \<Rightarrow> tr)"

section \<open>Context operations\<close>

text \<open>
  \<open>json.NewEncoder(w).Encode(v)\<close>: the value is encoded first; a value that cannot be
  encoded returns the error with nothing written, otherwise the encoding goes out in one
  \<open>Write\<close>, whose error is returned. The parameter \<open>encode\<close> gives the bytes the encoder
  emits for a value.
\<close>

definition json_Encode ::
  "('v \<Rightarrow> error + string) \<Rightarrow> 's ResponseWriter \<Rightarrow> 'v \<Rightarrow> 's \<Rightarrow> error option \<times> 's" where
  "json_Encode encode rw v s =
     (case encode v of
        Inl e \<Rightarrow> (Some e, s)
      | Inr b \<Rightarrow> (case Write rw b s of ((n, err), s') \<Rightarrow> (err, s')))"

definition JSON ::
  "('v \<Rightarrow> error + string) \<Rightarrow> ('d, 's) Context \<Rightarrow> int \<Rightarrow> 'v \<Rightarrow> 's \<Rightarrow> error option \<times> 's" where
  "JSON encode c code v s =
     (let s1 = Header_Set (response c) ''Content-Type'' ''application/json'' s;
          s2 = WriteHeader (response c) code s1
      in json_Encode encode (response c) v s2)"

definition Text :: "('d, 's) Context \<Rightarrow> int \<Rightarrow> string \<Rightarrow> 's \<Rightarrow> error option \<times> 's" where
  "Text c code txt s =
     (let s1 = Header_Set (response c) ''Content-Type'' ''text/plain'' s;
          s2 = WriteHeader (response c) code s1;
          s3 = snd (Write (response c) txt s2)
      in (None, s3))"

text \<open>\<open>Render\<close> calls the method of \<open>c.weavebox.templateEngine\<close>; on a nil interface the call
  panics.\<close>

definition Render ::
  "('d, 's) Context \<Rightarrow> string \<Rightarrow> 'd \<Rightarrow> 's \<Rightarrow> panic + (error option \<times> 's)" where
  "Render c name data s =
     (case weavebox_templateEngine c of
        None \<Rightarrow> Inl NilDereference
      | Some t \<Rightarrow> Inr (t (response c) name data s))"

definition Param :: "('d, 's) Context \<Rightarrow> string \<Rightarrow> string" where
  "Param c name = (case map_of (vars c) name of None \<Rightarrow> [] | Some v \<Rightarrow> v)"

text \<open>\<open>http.Redirect\<close> belongs to the standard library and returns nothing; it is a
  parameter.\<close>

type_synonym 's http_Redirect_fn = "'s ResponseWriter \<Rightarrow> Request \<Rightarrow> string \<Rightarrow> int \<Rightarrow> 's \<Rightarrow> 's"

definition Redirect ::
  "'s http_Redirect_fn \<Rightarrow> ('d, 's) Context \<Rightarrow> string \<Rightarrow> int \<Rightarrow> 's \<Rightarrow> error option \<times> 's" where
  "Redirect http_Redirect c url code s =
     (if code < StatusMultipleChoices \<or> code > StatusTemporaryRedirect
      then (Some (errors_New ''invalid redirect code''), s)
      else (None, http_Redirect (response c) (request c) url code s))"

section \<open>The access log\<close>

text \<open>
  The struct \<open>responseLogger\<close>: the wrapped writer (field \<open>w\<close>, here \<open>logger_w\<close>), the
  status and the size (here \<open>size_w\<close>). Its methods act on the logger together with the
  world \<open>'u\<close> of the wrapped writer.
\<close>

record 'u responseLogger =
  logger_w :: "'u ResponseWriter"
  status :: int
  size_w :: int

definition responseLogger_Write ::
  "string \<Rightarrow> 'u responseLogger \<times> 'u \<Rightarrow> (int \<times> error option) \<times> ('u responseLogger \<times> 'u)" where
  "responseLogger_Write p lu =
     (case lu of (l, u) \<Rightarrow>
        (let l1 = (if status l = 0 then l\<lparr>status := StatusOK\<rparr> else l)
         in case Write (logger_w l1) p u of
              ((n, err), u') \<Rightarrow> ((n, err), (l1\<lparr>size_w := size_w l1 + n\<rparr>, u'))))"

definition responseLogger_Header_Set ::
  "string \<Rightarrow> string \<Rightarrow> 'u responseLogger \<times> 'u \<Rightarrow> 'u responseLogger \<times> 'u" where
  "responseLogger_Header_Set k v lu = (case lu of (l, u) \<Rightarrow> (l, Header_Set (logger_w l) k v u))"

definition responseLogger_WriteHeader ::
  "int \<Rightarrow> 'u responseLogger \<times> 'u \<Rightarrow> 'u responseLogger \<times> 'u" where
  "responseLogger_WriteHeader code lu =
     (case lu of (l, u) \<Rightarrow> (l\<lparr>status := code\<rparr>, WriteHeader (logger_w l) code u))"

definition Status :: "'u responseLogger \<Rightarrow> int" where
  "Status l = status l"

definition Size :: "'u responseLogger \<Rightarrow> int" where
  "Size l = size_w l"

text \<open>The logger as the \<open>http.ResponseWriter\<close> handed to the router.\<close>

definition responseLogger_rw :: "('u responseLogger \<times> 'u) ResponseWriter" where
  "responseLogger_rw =
     \<lparr>Header_Set = responseLogger_Header_Set,
      WriteHeader = responseLogger_WriteHeader,
      Write = responseLogger_Write\<rparr>"

text \<open>\<open>%d\<close> of \<open>fmt\<close>: an integer in decimal.\<close>

fun showNat :: "nat \<Rightarrow> string" where
  "showNat n =
     (if n < 10 then [''0123456789'' ! n]
      else showNat (n div 10) @ [''0123456789'' ! (n mod 10)])"

declare showNat.simps [simp del]

definition showInt :: "int \<Rightarrow> string" where
  "showInt i = (if i < 0 then CHR ''-'' # showNat (nat (- i)) else showNat (nat i))"

text \<open>
  What \<open>writeLog\<close> takes from the environment: the host part of \<open>r.Host\<close> as
  \<open>net.SplitHostPort\<close> returns it, the start time in the layout of the log, and the
  nanoseconds elapsed since the start.
\<close>

record log_env =
  host :: string
  start_stamp :: string
  elapsed :: int

fun join_sp :: "string list \<Rightarrow> string" where
  "join_sp [] = []"
| "join_sp [f] = f"
| "join_sp (f # fs) = f @ CHR '' '' # join_sp fs"

text \<open>The fields of the format \<open>%s - [%s] %s %s %s %d %d %d\<close>, which a space separates.\<close>

definition log_fields :: "log_env \<Rightarrow> Request \<Rightarrow> int \<Rightarrow> int \<Rightarrow> string list" where
  "log_fields env r st sz =
     [host env, ''-'', ''['' @ start_stamp env @ '']'', Method r, RequestURI r, Proto r,
      showInt st, showInt sz, showInt (elapsed env)]"

text \<open>\<open>writeLog\<close> prints one line to \<open>w.Output\<close>: the result names the sink and the line.\<close>

definition writeLog ::
  "('d, 's) Weavebox \<Rightarrow> log_env \<Rightarrow> Request \<Rightarrow> int \<Rightarrow> int \<Rightarrow> io_Writer \<times> string" where
  "writeLog w env r st sz = (Output w, join_sp (log_fields env r st sz) @ [CHR 0x0A])"

text \<open>
  \<open>w.router.ServeHTTP\<close> is the external router. What it and the handlers it runs do to the
  writer it is handed is a sequence of method calls, which depends on the request: the
  parameter \<open>rt\<close>.
\<close>

definition router_ServeHTTP ::
  "(Request \<Rightarrow> rw_call list) \<Rightarrow> 'u ResponseWriter \<Rightarrow> Request \<Rightarrow> 'u \<Rightarrow> 'u" where
  "router_ServeHTTP rt rw r u = run_calls rw (rt r) u"

text \<open>\<open>ServeHTTP\<close> returns the world of the writer and the lines printed.\<close>

definition ServeHTTP ::
  "('d, 's) Weavebox \<Rightarrow> (Request \<Rightarrow> rw_call list) \<Rightarrow> log_env \<Rightarrow> 'u ResponseWriter \<Rightarrow> Request \<Rightarrow> 'u
     \<Rightarrow> 'u \<times> (io_Writer \<times> string) list" where
  "ServeHTTP w rt env rw r u =
     (if EnableLog w
      then (let logger = \<lparr>logger_w = rw, status = 0, size_w = 0\<rparr>
            in case router_ServeHTTP rt responseLogger_rw r (logger, u) of
                 (logger', u') \<Rightarrow> (u', [writeLog w env r (Status logger') (Size logger')]))
      else (router_ServeHTTP rt rw r u, []))"

text \<open>
  For the statements: the code of the last explicit header write of a sequence of calls,
  whether the sequence writes to the body, and the byte counts the wrapped writer returns
  for the body writes of the sequence.
\<close>

fun last_header_code :: "rw_call list \<Rightarrow> int option" where
  "last_header_code [] = None"
| "last_header_code (CallWriteHeader code # cs) =
     (case last_header_code cs of None \<Rightarrow> Some code | Some c \<Rightarrow> Some c)"
| "last_header_code (c # cs) = last_header_code cs"

fun writes_body :: "rw_call list \<Rightarrow> bool" where
  "writes_body [] = False"
| "writes_body (CallWrite p # cs) = True"
| "writes_body (c # cs) = writes_body cs"

fun header_codes :: "rw_call list \<Rightarrow> int list" where
  "header_codes [] = []"
| "header_codes (CallWriteHeader code # cs) = code # header_codes cs"
| "header_codes (c # cs) = header_codes cs"

fun write_counts :: "'u ResponseWriter \<Rightarrow> rw_call list \<Rightarrow> 'u \<Rightarrow> int list" where
  "write_counts rw [] u = []"
| "write_counts rw (CallWrite p # cs) u =
     fst (fst (Write rw p u)) # write_counts rw cs (snd (Write rw p u))"
| "write_counts rw (c # cs) u = write_counts rw cs (perform rw c u)"

text \<open>The status the specification gives for the log of a sequence of calls.\<close>

definition logged_status :: "rw_call list \<Rightarrow> int" where
  "logged_status cs =
     (case last_header_code cs of
        Some code \<Rightarrow> code
      | None \<Rightarrow> if writes_body cs then StatusOK else 0)"

section \<open>Example values\<close>

text \<open>
  An \<open>http.Error\<close> and an \<open>http.Redirect\<close> for the examples: the first sets the content
  type, writes the status and prints the message as a line; the second sets the location
  and writes the status.
\<close>

definition std_http_Error :: "'s http_Error_fn" where
  "std_http_Error rw msg code s =
     (let s1 = Header_Set rw ''Content-Type'' ''text/plain; charset=utf-8'' s;
          s2 = WriteHeader rw code s1
      in snd (Write rw (msg @ [CHR 0x0A]) s2))"

definition example_Redirect :: "'s http_Redirect_fn" where
  "example_Redirect rw r url code s = WriteHeader rw code (Header_Set rw ''Location'' url s)"

definition example_app :: "(unit, recorder) Weavebox" where
  "example_app = fst (New std_http_Error empty_heap)"

definition example_heap :: "(unit, recorder) heap" where
  "example_heap = snd (New std_http_Error empty_heap)"

definition example_Request :: Request where
  "example_Request =
     \<lparr>Method = ''GET'', RequestURI = ''/ping'', Proto = ''HTTP/1.1'', Host = ''127.0.0.1:8080''\<rparr>"

definition example_Context :: "(unit, recorder) Context" where
  "example_Context = new_Context example_app recorder_rw example_Request []"

definition example_env :: log_env where
  "example_env =
     \<lparr>host = ''127.0.0.1'', start_stamp = ''01/Nov/2026:12:00:00 +0000'', elapsed = 1500\<rparr>"

text \<open>Handlers: one writes a text to the body, one sets a header, one fails.\<close>

definition say :: "string \<Rightarrow> (unit, recorder) Handler" where
  "say txt ctx s = (None, snd (Write (response ctx) txt s))"

definition tag :: "string \<Rightarrow> (unit, recorder) Handler" where
  "tag k ctx s = (None, Header_Set (response ctx) k ''1'' s)"

definition fail_with :: "string \<Rightarrow> (unit, recorder) Handler" where
  "fail_with msg ctx s = (Some (errors_New msg), s)"


definition silent_script :: "Request \<Rightarrow> rw_call list" where
  "silent_script r = [CallHeaderSet ''X-Seen'' ''1'']"

text \<open>A renderer that writes the template's name and does not know the template \<open>missing\<close>.\<close>

definition example_renderer :: "(unit, recorder) Renderer" where
  "example_renderer rw name data s =
     (if name = ''missing'' then (Some (errors_New ''template not found''), s)
      else (None, snd (Write rw name s)))"

text \<open>
  The bytes the JSON encoder emits for a map with one entry, such as \<open>{"a": 1}\<close>: the
  object and a line break. \<open>None\<close> stands for a value the encoder refuses.
\<close>

definition example_encode :: "(string \<times> int) option \<Rightarrow> error + string" where
  "example_encode v =
     (case v of
        None \<Rightarrow> Inl (errors_New ''json: unsupported type'')
      | Some (k, n) \<Rightarrow>
          Inr (''{'' @ [CHR 0x22] @ k @ [CHR 0x22] @ '':'' @ showInt n @ ''}'' @ [CHR 0x0A]))"

text \<open>
  The program \<open>app.Use(a, b, c); s := app.Subrouter(/s); app.Use(d); s.Use(e)\<close> on a
  new application: the parent after three handlers, the subrouter made from it, the
  parent after its fourth, and the subrouter after its own fourth.
\<close>

definition parent_3 :: "(unit, recorder) Weavebox \<times> (unit, recorder) heap" where
  "parent_3 = Use go_growcap example_app [say ''a'', say ''b'', say ''c''] example_heap"

definition child_3 :: "(unit, recorder) Weavebox" where
  "child_3 = Weavebox_of (Subrouter (fst parent_3) ''/s'')"

definition parent_4 :: "(unit, recorder) Weavebox \<times> (unit, recorder) heap" where
  "parent_4 = Use go_growcap (fst parent_3) [say ''d''] (snd parent_3)"

definition child_4 :: "(unit, recorder) Weavebox \<times> (unit, recorder) heap" where
  "child_4 = Use go_growcap child_3 [say ''e''] (snd parent_4)"

section \<open>Slices and \<open>Use\<close>\<close>

lemma length_slice_elems: "wf_slice M sl \<Longrightarrow> length (slice_elems M sl) = Len sl"
  by (auto simp: wf_slice_def slice_elems_def array_at_def)

lemma append_slice_elems:
  assumes "wf_slice M sl" and "append_slice growcap M sl x = (M', sl')"
  shows "slice_elems M' sl' = slice_elems M sl @ [Some x]"
proof (cases "Len sl < Cap sl")
  case True
  with assms(1) have d: "Data sl < length M" and l: "Len sl < length (M ! Data sl)"
    by (auto simp: wf_slice_def)
  from True assms(2) have M': "M' = M[Data sl := (M ! Data sl)[Len sl := Some x]]"
    and sl': "sl' = sl\<lparr>Len := Len sl + 1\<rparr>"
    using d by (auto simp: append_slice_def array_at_def)
  show ?thesis
    using d l by (simp add: M' sl' slice_elems_def array_at_def take_Suc_conv_app_nth)
next
  case False
  define a where "a = slice_elems M sl @ [Some x]
      @ replicate (max (Len sl + 1) (growcap (Cap sl) (Len sl + 1)) - (Len sl + 1)) None"
  from False assms(2) have M': "M' = M @ [a]" and sl': "Data sl' = length M" "Len sl' = Len sl + 1"
    by (auto simp: append_slice_def Let_def a_def)
  have "slice_elems M' sl' = take (Len sl + 1) a"
    by (simp add: slice_elems_def array_at_def M' sl')
  also have "\<dots> = slice_elems M sl @ [Some x]"
    using length_slice_elems [OF assms(1)] by (simp add: a_def)
  finally show ?thesis .
qed

lemma append_slice_wf:
  assumes "wf_slice M sl" and "append_slice growcap M sl x = (M', sl')"
  shows "wf_slice M' sl'"
proof (cases "Len sl < Cap sl")
  case True
  with assms show ?thesis
    by (auto simp: append_slice_def wf_slice_def array_at_def)
next
  case False
  with assms show ?thesis
    by (auto simp: append_slice_def wf_slice_def Let_def length_slice_elems [OF assms(1)])
qed

lemma Use_elems:
  "wf_slice (arrays \<sigma>) (middleware w) \<Longrightarrow> Use growcap w hs \<sigma> = (w', \<sigma>') \<Longrightarrow>
   slice_elems (arrays \<sigma>') (middleware w') = slice_elems (arrays \<sigma>) (middleware w) @ map Some hs
   \<and> wf_slice (arrays \<sigma>') (middleware w')"
proof (induction hs arbitrary: w \<sigma>)
  case Nil
  then show ?case by simp
next
  case (Cons h hs)
  obtain M sl where a: "append_slice growcap (arrays \<sigma>) (middleware w) h = (M, sl)"
    by (cases "append_slice growcap (arrays \<sigma>) (middleware w) h")
  from Cons.prems(2) a have u: "Use growcap (w\<lparr>middleware := sl\<rparr>) hs (\<sigma>\<lparr>arrays := M\<rparr>) = (w', \<sigma>')"
    by simp
  have "wf_slice (arrays (\<sigma>\<lparr>arrays := M\<rparr>)) (middleware (w\<lparr>middleware := sl\<rparr>))"
    using append_slice_wf [OF Cons.prems(1) a] by simp
  from Cons.IH [OF this u] append_slice_elems [OF Cons.prems(1) a]
  show ?case by simp
qed

lemma Use_frame:
  "Use growcap w hs \<sigma> = (w', \<sigma>') \<Longrightarrow>
   w' = w\<lparr>middleware := middleware w'\<rparr> \<and> \<sigma>' = \<sigma>\<lparr>arrays := arrays \<sigma>'\<rparr>"
proof (induction hs arbitrary: w \<sigma>)
  case Nil
  then show ?case by simp
next
  case (Cons h hs)
  obtain M sl where a: "append_slice growcap (arrays \<sigma>) (middleware w) h = (M, sl)"
    by (cases "append_slice growcap (arrays \<sigma>) (middleware w) h")
  from Cons.prems a have u: "Use growcap (w\<lparr>middleware := sl\<rparr>) hs (\<sigma>\<lparr>arrays := M\<rparr>) = (w', \<sigma>')"
    by simp
  from Cons.IH [OF u] show ?case
    by (metis (no_types, lifting) Weavebox.surjective Weavebox.update_convs(7) heap.surjective heap.update_convs(1))
qed

lemma Use_calls_elems:
  "wf_slice (arrays \<sigma>) (middleware w) \<Longrightarrow> Use_calls growcap w calls \<sigma> = (w', \<sigma>') \<Longrightarrow>
   slice_elems (arrays \<sigma>') (middleware w') = slice_elems (arrays \<sigma>) (middleware w) @ map Some (concat calls)
   \<and> wf_slice (arrays \<sigma>') (middleware w')"
proof (induction calls arbitrary: w \<sigma>)
  case Nil
  then show ?case by simp
next
  case (Cons hs calls)
  obtain w1 \<sigma>1 where u: "Use growcap w hs \<sigma> = (w1, \<sigma>1)"
    by (cases "Use growcap w hs \<sigma>")
  with Cons.prems(2) have c: "Use_calls growcap w1 calls \<sigma>1 = (w', \<sigma>')" by simp
  from Use_elems [OF Cons.prems(1) u] Cons.IH [OF _ c]
  show ?case by simp
qed

lemma New_middleware:
  "wf_slice (arrays (snd (New he \<sigma>))) (middleware (fst (New he \<sigma>)))
   \<and> slice_elems (arrays (snd (New he \<sigma>))) (middleware (fst (New he \<sigma>))) = []"
  by (simp add: New_def wf_slice_def nil_slice_def slice_elems_def)

lemma append_slice_frame:
  assumes "append_slice growcap M sl x = (M', sl')"
    and "Len sl0 = 0 \<or> Data sl0 < length M"
    and "Data sl0 = Data sl \<longrightarrow> Len sl0 \<le> Len sl"
  shows "slice_elems M' sl0 = slice_elems M sl0
         \<and> (Len sl0 = 0 \<or> Data sl0 < length M')
         \<and> (Data sl0 = Data sl' \<longrightarrow> Len sl0 \<le> Len sl')"
proof (cases "Len sl < Cap sl")
  case True
  with assms(1) have M': "M' = M[Data sl := (array_at M (Data sl))[Len sl := Some x]]"
    and sl': "sl' = sl\<lparr>Len := Len sl + 1\<rparr>"
    by (auto simp: append_slice_def)
  show ?thesis
    using assms(2,3)
    by (auto simp: M' sl' slice_elems_def array_at_def nth_list_update)
next
  case False
  with assms(1) obtain a where M': "M' = M @ [a]" and sl': "Data sl' = length M"
    by (auto simp: append_slice_def Let_def)
  show ?thesis
    using assms(2,3)
    by (auto simp: M' sl' slice_elems_def array_at_def nth_append)
qed

lemma Use_frame_slice:
  "Use growcap w hs \<sigma> = (w', \<sigma>') \<Longrightarrow>
   Len sl0 = 0 \<or> Data sl0 < length (arrays \<sigma>) \<Longrightarrow>
   Data sl0 = Data (middleware w) \<longrightarrow> Len sl0 \<le> Len (middleware w) \<Longrightarrow>
   slice_elems (arrays \<sigma>') sl0 = slice_elems (arrays \<sigma>) sl0"
proof (induction hs arbitrary: w \<sigma>)
  case Nil
  then show ?case by simp
next
  case (Cons h hs)
  obtain M sl where a: "append_slice growcap (arrays \<sigma>) (middleware w) h = (M, sl)"
    by (cases "append_slice growcap (arrays \<sigma>) (middleware w) h")
  from Cons.prems(1) a have u: "Use growcap (w\<lparr>middleware := sl\<rparr>) hs (\<sigma>\<lparr>arrays := M\<rparr>) = (w', \<sigma>')"
    by simp
  from append_slice_frame [OF a Cons.prems(2) Cons.prems(3)]
  have f: "slice_elems M sl0 = slice_elems (arrays \<sigma>) sl0"
    "Len sl0 = 0 \<or> Data sl0 < length M" "Data sl0 = Data sl \<longrightarrow> Len sl0 \<le> Len sl"
    by simp_all
  from Cons.IH [OF u] f show ?case by simp
qed

lemma Use_keeps_fresh_snapshot:
  assumes "wf_slice (arrays \<sigma>) (middleware w)" and "Use growcap w hs \<sigma> = (w', \<sigma>')"
  shows "slice_elems (arrays \<sigma>') (middleware (Weavebox_of (Subrouter w pfx)))
           = slice_elems (arrays \<sigma>) (middleware w)"
proof -
  have m: "middleware (Weavebox_of (Subrouter w pfx)) = middleware w"
    by (simp add: Subrouter_def)
  from assms(1) have "Len (middleware w) = 0 \<or> Data (middleware w) < length (arrays \<sigma>)"
    by (auto simp: wf_slice_def)
  from Use_frame_slice [OF assms(2) this] show ?thesis
    by (simp add: m)
qed

section \<open>Dispatch: order and short circuit\<close>

lemma range_middleware_success:
  "succeed_in_order ctx fs s = Some s' \<Longrightarrow>
   range_middleware eh ctx (map Some fs) (s, tr) = Inr (False, s', tr @ map Invoked fs)"
proof (induction fs arbitrary: s tr)
  case Nil
  then show ?case by simp
next
  case (Cons f fs)
  then show ?case
    by (cases "f ctx s") (auto split: option.splits)
qed

lemma range_middleware_failure:
  "succeed_in_order ctx pre s = Some s1 \<Longrightarrow> f ctx s1 = (Some e, s2) \<Longrightarrow>
   range_middleware eh ctx (map Some (pre @ f # post)) (s, tr)
     = Inr (True, eh ctx e s2, tr @ map Invoked (pre @ [f]) @ [ErrorHandled e])"
proof (induction pre arbitrary: s tr)
  case Nil
  then show ?case by simp
next
  case (Cons g pre)
  then show ?case
    by (cases "g ctx s") (auto split: option.splits)
qed

lemma error_handler_calls_append:
  "error_handler_calls (xs @ ys) = error_handler_calls xs + error_handler_calls ys"
  by (induction xs rule: error_handler_calls.induct) simp_all

lemma range_middleware_error_calls:
  "range_middleware eh ctx cells (s, tr) = Inr (b, s', tr') \<Longrightarrow>
   error_handler_calls tr' = error_handler_calls tr + (if b then 1 else 0)"
proof (induction cells arbitrary: s tr)
  case Nil
  then show ?case by auto
next
  case (Cons cell cells)
  show ?case
  proof (cases cell)
    case None
    with Cons.prems show ?thesis by simp
  next
    case (Some f)
    with Cons show ?thesis
      by (cases "f ctx s") (auto simp: error_handler_calls_append split: option.splits)
  qed
qed


lemma succeed_in_order_append:
  "succeed_in_order ctx (fs @ gs) s =
     (case succeed_in_order ctx fs s of None \<Rightarrow> None | Some s1 \<Rightarrow> succeed_in_order ctx gs s1)"
proof (induction fs arbitrary: s)
  case Nil
  then show ?case by simp
next
  case (Cons f fs)
  then show ?case
    by (cases "f ctx s") (simp split: option.splits)
qed

lemma succeed_in_order_last:
  "succeed_in_order ctx (fs @ [h]) s = Some s' \<Longrightarrow>
   \<exists>s1. succeed_in_order ctx fs s = Some s1 \<and> h ctx s1 = (None, s')"
  by (cases "succeed_in_order ctx fs s")
     (auto simp: succeed_in_order_append split: option.splits prod.splits)

lemma handle_context:
  "(case w_context w of None \<Rightarrow> w\<lparr>w_context := Some context_Background\<rparr> | Some c \<Rightarrow> w)
     = w\<lparr>w_context := Some (Context (new_Context w rw r params))\<rparr>"
  by (cases "w_context w") (simp_all add: new_Context_def)

lemma new_Context_bound:
  "new_Context (w\<lparr>w_context := Some (Context (new_Context w rw r params))\<rparr>) rw r params
     = new_Context w rw r params"
  by (cases "w_context w") (simp_all add: new_Context_def)

lemma makeHTTPRouterHandle_unfold:
  "makeHTTPRouterHandle w h \<sigma> rw r params s =
     (case range_middleware (ErrorHandler w) (new_Context w rw r params)
             (slice_elems (arrays \<sigma>) (middleware w)) (s, []) of
        Inl p \<Rightarrow> Inl p
      | Inr (True, s', tr) \<Rightarrow> Inr (w\<lparr>w_context := Some (Context (new_Context w rw r params))\<rparr>, s', tr)
      | Inr (False, s', tr) \<Rightarrow>
          (case h (new_Context w rw r params) s' of
             (Some err, s'') \<Rightarrow>
               Inr (w\<lparr>w_context := Some (Context (new_Context w rw r params))\<rparr>,
                    ErrorHandler w (new_Context w rw r params) err s'',
                    tr @ [Invoked h, ErrorHandled err])
           | (None, s'') \<Rightarrow>
               Inr (w\<lparr>w_context := Some (Context (new_Context w rw r params))\<rparr>, s'', tr @ [Invoked h])))"
  unfolding makeHTTPRouterHandle_def Let_def handle_context [of w rw r params] new_Context_bound
  by (simp split: sum.splits prod.splits bool.splits option.splits)

text \<open>
  C1. Take any application whose middleware reads \<open>pre\<close> (empty for the application
  \<open>New\<close> returns), register handlers by any sequence of calls of \<open>Use\<close>, and let a request
  reach the entry point bound to a route with terminal handler \<open>h\<close>. If every handler
  returns success, the entry point calls exactly the middleware in registration order and
  then \<open>h\<close>, each once, the world is the one these calls leave, and the error handler is
  not called.
\<close>

theorem middleware_then_handler_in_order:
  assumes wf: "wf_slice (arrays \<sigma>) (middleware w)"
    and before: "slice_elems (arrays \<sigma>) (middleware w) = map Some pre"
    and use: "Use_calls growcap w calls \<sigma> = (w', \<sigma>')"
    and ok: "succeed_in_order (new_Context w' rw r params) (pre @ concat calls @ [h]) s = Some s'"
  shows "makeHTTPRouterHandle w' h \<sigma>' rw r params s =
           Inr (w'\<lparr>w_context := Some (Context (new_Context w' rw r params))\<rparr>, s',
                map Invoked (pre @ concat calls @ [h]))"
proof -
  let ?ctx = "new_Context w' rw r params"
  have elems: "slice_elems (arrays \<sigma>') (middleware w') = map Some (pre @ concat calls)"
    using Use_calls_elems [OF wf use] before by simp
  from ok have "succeed_in_order ?ctx ((pre @ concat calls) @ [h]) s = Some s'" by simp
  from succeed_in_order_last [OF this]
  obtain s1 where s1: "succeed_in_order ?ctx (pre @ concat calls) s = Some s1"
    and h: "h ?ctx s1 = (None, s')"
    by blast
  show ?thesis
    unfolding makeHTTPRouterHandle_unfold elems range_middleware_success [OF s1]
    by (simp add: h)
qed

theorem middleware_then_handler_in_order_witness:
  "Use_calls go_growcap example_app [[say ''a''], [say ''b'']] example_heap
     = (example_app\<lparr>middleware := \<lparr>Data = 1, Len = 2, Cap = 2\<rparr>\<rparr>,
        example_heap\<lparr>arrays := [[Some (say ''a'')], [Some (say ''a''), Some (say ''b'')]]\<rparr>)
   \<and> makeHTTPRouterHandle
       (example_app\<lparr>middleware := \<lparr>Data = 1, Len = 2, Cap = 2\<rparr>\<rparr>)
       (say ''pong'')
       (example_heap\<lparr>arrays := [[Some (say ''a'')], [Some (say ''a''), Some (say ''b'')]]\<rparr>)
       recorder_rw example_Request [] new_recorder
     = Inr (example_app\<lparr>middleware := \<lparr>Data = 1, Len = 2, Cap = 2\<rparr>,
                         w_context := Some context_Background\<rparr>,
            new_recorder\<lparr>wroteHeader := True, Code := 200, Body := ''abpong''\<rparr>,
            [Invoked (say ''a''), Invoked (say ''b''), Invoked (say ''pong'')])"
proof -
  let ?w' = "example_app\<lparr>middleware := \<lparr>Data = 1, Len = 2, Cap = 2\<rparr>\<rparr>"
  let ?\<sigma>' = "example_heap\<lparr>arrays := [[Some (say ''a'')], [Some (say ''a''), Some (say ''b'')]]\<rparr>"
  have wf: "wf_slice (arrays example_heap) (middleware example_app)"
    by (simp add: wf_slice_def example_app_def New_def nil_slice_def)
  have before: "slice_elems (arrays example_heap) (middleware example_app) = map Some []"
    by (simp add: slice_elems_def example_app_def New_def nil_slice_def)
  have use: "Use_calls go_growcap example_app [[say ''a''], [say ''b'']] example_heap = (?w', ?\<sigma>')"
    by (simp add: example_app_def example_heap_def New_def nil_slice_def empty_heap_def
        append_slice_def slice_elems_def array_at_def go_growcap_def)
  have c: "w_context example_app = None"
    by (simp add: example_app_def New_def)
  have ok: "succeed_in_order (new_Context ?w' recorder_rw example_Request [])
              ([] @ concat [[say ''a''], [say ''b'']] @ [say ''pong'']) new_recorder
            = Some (new_recorder\<lparr>wroteHeader := True, Code := 200, Body := ''abpong''\<rparr>)"
    by (simp add: say_def new_Context_def recorder_rw_def recorder_Write_def
        recorder_WriteHeader_def new_recorder_def StatusOK_def)
  have main: "makeHTTPRouterHandle ?w' (say ''pong'') ?\<sigma>' recorder_rw example_Request [] new_recorder
      = Inr (example_app\<lparr>middleware := \<lparr>Data = 1, Len = 2, Cap = 2\<rparr>,
                          w_context := Some context_Background\<rparr>,
             new_recorder\<lparr>wroteHeader := True, Code := 200, Body := ''abpong''\<rparr>,
             [Invoked (say ''a''), Invoked (say ''b''), Invoked (say ''pong'')])"
    using middleware_then_handler_in_order [OF wf before use ok]
    by (simp add: new_Context_def c)
  show ?thesis
    by (rule conjI [OF use main])
qed

text \<open>
  C2. When the middleware reads \<open>pre\<close>, \<open>f\<close>, \<open>post\<close>, the handlers of \<open>pre\<close> succeed and \<open>f\<close>
  fails with \<open>e\<close>, the entry point calls \<open>pre\<close>, then \<open>f\<close>, then the error handler with \<open>e\<close>,
  and nothing else: neither \<open>post\<close> nor the terminal handler runs. When all middleware
  succeed and the terminal handler fails with \<open>e'\<close>, the error handler is called once
  with \<open>e'\<close> after it. In every run the error handler is called at most once.
\<close>

theorem first_failure_short_circuits:
  "(slice_elems (arrays \<sigma>) (middleware w) = map Some (pre @ f # post)
      \<and> succeed_in_order (new_Context w rw r params) pre s = Some s1
      \<and> f (new_Context w rw r params) s1 = (Some e, s2)
    \<longrightarrow> makeHTTPRouterHandle w h \<sigma> rw r params s =
          Inr (w\<lparr>w_context := Some (Context (new_Context w rw r params))\<rparr>,
               ErrorHandler w (new_Context w rw r params) e s2,
               map Invoked (pre @ [f]) @ [ErrorHandled e]))
   \<and> (slice_elems (arrays \<sigma>) (middleware w) = map Some hs
        \<and> succeed_in_order (new_Context w rw r params) hs s = Some t1
        \<and> h (new_Context w rw r params) t1 = (Some e', t2)
      \<longrightarrow> makeHTTPRouterHandle w h \<sigma> rw r params s =
            Inr (w\<lparr>w_context := Some (Context (new_Context w rw r params))\<rparr>,
                 ErrorHandler w (new_Context w rw r params) e' t2,
                 map Invoked (hs @ [h]) @ [ErrorHandled e']))
   \<and> error_handler_calls (trace_of (makeHTTPRouterHandle w h \<sigma> rw r params s)) \<le> 1"
proof (intro conjI impI)
  assume a: "slice_elems (arrays \<sigma>) (middleware w) = map Some (pre @ f # post)
      \<and> succeed_in_order (new_Context w rw r params) pre s = Some s1
      \<and> f (new_Context w rw r params) s1 = (Some e, s2)"
  then have elems: "slice_elems (arrays \<sigma>) (middleware w) = map Some (pre @ f # post)"
    and s1: "succeed_in_order (new_Context w rw r params) pre s = Some s1"
    and f: "f (new_Context w rw r params) s1 = (Some e, s2)"
    by simp_all
  show "makeHTTPRouterHandle w h \<sigma> rw r params s =
          Inr (w\<lparr>w_context := Some (Context (new_Context w rw r params))\<rparr>,
               ErrorHandler w (new_Context w rw r params) e s2,
               map Invoked (pre @ [f]) @ [ErrorHandled e])"
    unfolding makeHTTPRouterHandle_unfold elems range_middleware_failure [where f = f and pre = pre, OF s1 f]
    by simp
next
  assume "slice_elems (arrays \<sigma>) (middleware w) = map Some hs
        \<and> succeed_in_order (new_Context w rw r params) hs s = Some t1
        \<and> h (new_Context w rw r params) t1 = (Some e', t2)"
  then have elems: "slice_elems (arrays \<sigma>) (middleware w) = map Some hs"
    and t1: "succeed_in_order (new_Context w rw r params) hs s = Some t1"
    and h: "h (new_Context w rw r params) t1 = (Some e', t2)"
    by simp_all
  show "makeHTTPRouterHandle w h \<sigma> rw r params s =
            Inr (w\<lparr>w_context := Some (Context (new_Context w rw r params))\<rparr>,
                 ErrorHandler w (new_Context w rw r params) e' t2,
                 map Invoked (hs @ [h]) @ [ErrorHandled e'])"
    unfolding makeHTTPRouterHandle_unfold elems range_middleware_success [OF t1]
    by (simp add: h)
next
  let ?ctx = "new_Context w rw r params"
  let ?loop = "range_middleware (ErrorHandler w) ?ctx (slice_elems (arrays \<sigma>) (middleware w)) (s, [])"
  show "error_handler_calls (trace_of (makeHTTPRouterHandle w h \<sigma> rw r params s)) \<le> 1"
  proof (cases ?loop)
    case (Inl p)
    then show ?thesis by (simp add: makeHTTPRouterHandle_unfold trace_of_def)
  next
    case (Inr res)
    obtain b s' tr where res: "res = (b, s', tr)" by (cases res)
    from range_middleware_error_calls [OF Inr [unfolded res]]
    have n: "error_handler_calls tr = (if b then 1 else 0)" by simp
    show ?thesis
      using n Inr res
      by (cases "h ?ctx s'")
         (auto simp: makeHTTPRouterHandle_unfold trace_of_def error_handler_calls_append
               split: option.splits bool.splits)
  qed
qed

theorem first_failure_short_circuits_witness:
  "makeHTTPRouterHandle
     (example_app\<lparr>middleware := \<lparr>Data = 0, Len = 3, Cap = 4\<rparr>\<rparr>) (say ''pong'')
     (example_heap\<lparr>arrays := [[Some (tag ''X-A''), Some (fail_with ''boom''), Some (tag ''X-B''), None]]\<rparr>)
     recorder_rw example_Request [] new_recorder
   = Inr (example_app\<lparr>middleware := \<lparr>Data = 0, Len = 3, Cap = 4\<rparr>,
                       w_context := Some context_Background\<rparr>,
          \<lparr>HeaderMap = [(''Content-Type'', ''text/plain; charset=utf-8''), (''X-A'', ''1'')],
           wroteHeader = True, Code = 500,
           sentHeader = [(''Content-Type'', ''text/plain; charset=utf-8''), (''X-A'', ''1'')],
           Body = ''boom'' @ [CHR 0x0A]\<rparr>,
          [Invoked (tag ''X-A''), Invoked (fail_with ''boom''), ErrorHandled (errors_New ''boom'')])
   \<and> makeHTTPRouterHandle
       (example_app\<lparr>middleware := \<lparr>Data = 0, Len = 1, Cap = 1\<rparr>\<rparr>) (fail_with ''late'')
       (example_heap\<lparr>arrays := [[Some (tag ''X-A'')]]\<rparr>)
       recorder_rw example_Request [] new_recorder
     = Inr (example_app\<lparr>middleware := \<lparr>Data = 0, Len = 1, Cap = 1\<rparr>,
                         w_context := Some context_Background\<rparr>,
            \<lparr>HeaderMap = [(''Content-Type'', ''text/plain; charset=utf-8''), (''X-A'', ''1'')],
             wroteHeader = True, Code = 500,
             sentHeader = [(''Content-Type'', ''text/plain; charset=utf-8''), (''X-A'', ''1'')],
             Body = ''late'' @ [CHR 0x0A]\<rparr>,
            [Invoked (tag ''X-A''), Invoked (fail_with ''late''), ErrorHandled (errors_New ''late'')])"
proof -
  let ?w = "example_app\<lparr>middleware := \<lparr>Data = 0, Len = 3, Cap = 4\<rparr>\<rparr>"
  let ?\<sigma> = "example_heap\<lparr>arrays := [[Some (tag ''X-A''), Some (fail_with ''boom''), Some (tag ''X-B''), None]]\<rparr>"
  let ?v = "example_app\<lparr>middleware := \<lparr>Data = 0, Len = 1, Cap = 1\<rparr>\<rparr>"
  let ?\<tau> = "example_heap\<lparr>arrays := [[Some (tag ''X-A'')]]\<rparr>"
  let ?s1 = "new_recorder\<lparr>HeaderMap := [(''X-A'', ''1'')]\<rparr>"
  have c: "w_context example_app = None" and eh: "ErrorHandler example_app = defaultErrorHandler std_http_Error"
    by (simp_all add: example_app_def New_def)
  have e1: "slice_elems (arrays ?\<sigma>) (middleware ?w)
      = map Some ([tag ''X-A''] @ fail_with ''boom'' # [tag ''X-B''])"
    by (simp add: slice_elems_def array_at_def)
  have p1: "succeed_in_order (new_Context ?w recorder_rw example_Request []) [tag ''X-A''] new_recorder
      = Some ?s1"
    by (simp add: tag_def new_Context_def recorder_rw_def new_recorder_def)
  have f1: "fail_with ''boom'' (new_Context ?w recorder_rw example_Request []) ?s1
      = (Some (errors_New ''boom''), ?s1)"
    by (simp add: fail_with_def)
  have e2: "slice_elems (arrays ?\<tau>) (middleware ?v) = map Some [tag ''X-A'']"
    by (simp add: slice_elems_def array_at_def)
  have p2: "succeed_in_order (new_Context ?v recorder_rw example_Request []) [tag ''X-A''] new_recorder
      = Some ?s1"
    by (simp add: tag_def new_Context_def recorder_rw_def new_recorder_def)
  have f2: "fail_with ''late'' (new_Context ?v recorder_rw example_Request []) ?s1
      = (Some (errors_New ''late''), ?s1)"
    by (simp add: fail_with_def)
  have a: "makeHTTPRouterHandle ?w (say ''pong'') ?\<sigma> recorder_rw example_Request [] new_recorder
      = Inr (?w\<lparr>w_context := Some (Context (new_Context ?w recorder_rw example_Request []))\<rparr>,
             ErrorHandler ?w (new_Context ?w recorder_rw example_Request []) (errors_New ''boom'') ?s1,
             map Invoked ([tag ''X-A''] @ [fail_with ''boom'']) @ [ErrorHandled (errors_New ''boom'')])"
    using first_failure_short_circuits [where \<sigma> = ?\<sigma> and w = ?w and pre = "[tag ''X-A'']"
        and f = "fail_with ''boom''" and post = "[tag ''X-B'']" and s = new_recorder and ?s1.0 = ?s1
        and e = "errors_New ''boom''" and ?s2.0 = ?s1 and rw = recorder_rw and r = example_Request
        and params = "[]" and h = "say ''pong''"] e1 p1 f1
    by blast
  have b: "makeHTTPRouterHandle ?v (fail_with ''late'') ?\<tau> recorder_rw example_Request [] new_recorder
      = Inr (?v\<lparr>w_context := Some (Context (new_Context ?v recorder_rw example_Request []))\<rparr>,
             ErrorHandler ?v (new_Context ?v recorder_rw example_Request []) (errors_New ''late'') ?s1,
             map Invoked ([tag ''X-A''] @ [fail_with ''late'']) @ [ErrorHandled (errors_New ''late'')])"
    using first_failure_short_circuits [where \<sigma> = ?\<tau> and w = ?v and hs = "[tag ''X-A'']"
        and s = new_recorder and ?t1.0 = ?s1 and e' = "errors_New ''late''" and ?t2.0 = ?s1
        and rw = recorder_rw and r = example_Request and params = "[]" and h = "fail_with ''late''"]
      e2 p2 f2
    by blast
  have r1: "ErrorHandler ?w (new_Context ?w recorder_rw example_Request []) (errors_New ''boom'') ?s1
      = \<lparr>HeaderMap = [(''Content-Type'', ''text/plain; charset=utf-8''), (''X-A'', ''1'')],
           wroteHeader = True, Code = 500,
           sentHeader = [(''Content-Type'', ''text/plain; charset=utf-8''), (''X-A'', ''1'')],
           Body = ''boom'' @ [CHR 0x0A]\<rparr>"
    by (simp add: eh defaultErrorHandler_def std_http_Error_def new_Context_def recorder_rw_def
        recorder_Write_def recorder_WriteHeader_def new_recorder_def StatusInternalServerError_def)
  have r2: "ErrorHandler ?v (new_Context ?v recorder_rw example_Request []) (errors_New ''late'') ?s1
      = \<lparr>HeaderMap = [(''Content-Type'', ''text/plain; charset=utf-8''), (''X-A'', ''1'')],
           wroteHeader = True, Code = 500,
           sentHeader = [(''Content-Type'', ''text/plain; charset=utf-8''), (''X-A'', ''1'')],
           Body = ''late'' @ [CHR 0x0A]\<rparr>"
    by (simp add: eh defaultErrorHandler_def std_http_Error_def new_Context_def recorder_rw_def
        recorder_Write_def recorder_WriteHeader_def new_recorder_def StatusInternalServerError_def)
  show ?thesis
    using a [unfolded r1] b [unfolded r2] by (simp add: new_Context_def c)
qed

section \<open>The access log: status and size\<close>

lemma logger_run:
  "0 \<notin> set (header_codes cs) \<Longrightarrow>
   run_calls responseLogger_rw cs (l, u) =
     (l\<lparr>status := (case last_header_code cs of Some code \<Rightarrow> code
                      | None \<Rightarrow> if writes_body cs \<and> status l = 0 then StatusOK else status l),
        size_w := size_w l + sum_list (write_counts (logger_w l) cs u)\<rparr>,
      run_calls (logger_w l) cs u)"
proof (induction cs arbitrary: l u)
  case Nil
  then show ?case by simp
next
  case (Cons c cs)
  show ?case
  proof (cases c)
    case (CallHeaderSet k v)
    with Cons show ?thesis
      by (simp add: responseLogger_rw_def responseLogger_Header_Set_def)
  next
    case (CallWriteHeader code)
    with Cons show ?thesis
      by (simp add: responseLogger_rw_def responseLogger_WriteHeader_def StatusOK_def
          split: option.splits)
  next
    case (CallWrite p)
    with Cons show ?thesis
      by (simp add: responseLogger_rw_def responseLogger_Write_def StatusOK_def
          split: option.splits prod.splits)
  qed
qed

lemma ServeHTTP_logged:
  assumes "EnableLog w" and "0 \<notin> set (header_codes (rt r))"
  shows "ServeHTTP w rt env rw r u =
           (run_calls rw (rt r) u,
            [(Output w,
              join_sp (log_fields env r (logged_status (rt r)) (sum_list (write_counts rw (rt r) u)))
                @ [CHR 0x0A])])"
  using assms
  by (simp add: ServeHTTP_def router_ServeHTTP_def logger_run writeLog_def Status_def Size_def
      logged_status_def split: option.splits)

lemma last_header_code_None: "header_codes cs = [] \<Longrightarrow> last_header_code cs = None"
  by (induction cs rule: header_codes.induct) simp_all

lemma write_counts_silent: "\<not> writes_body cs \<Longrightarrow> write_counts rw cs u = []"
  by (induction rw cs u rule: write_counts.induct) simp_all

lemma showInt_examples:
  "showInt 0 = ''0''" "showInt 4 = ''4''" "showInt 200 = ''200''" "showInt 1500 = ''1500''"
  by (simp_all add: showInt_def showNat.simps)



text \<open>
  C10. With logging enabled, a request whose handlers write neither a status header nor
  body bytes is logged with status field \<open>0\<close>, the zero value of the wrapper, and size
  field \<open>0\<close>.
\<close>

theorem access_log_of_silent_request:
  assumes "EnableLog w" and "header_codes (rt r) = []" and "\<not> writes_body (rt r)"
  shows "ServeHTTP w rt env rw r u =
           (run_calls rw (rt r) u, [(Output w, join_sp (log_fields env r 0 0) @ [CHR 0x0A])])
         \<and> log_fields env r 0 0 ! 6 = ''0''
         \<and> log_fields env r 0 0 ! 7 = ''0''"
proof -
  from assms(2) have z: "0 \<notin> set (header_codes (rt r))" by simp
  show ?thesis
    using ServeHTTP_logged [where rt = rt and r = r, OF assms(1) z]
    by (simp add: logged_status_def last_header_code_None [OF assms(2)] assms(3)
        write_counts_silent [OF assms(3)] log_fields_def showInt_examples)
qed

theorem access_log_of_silent_request_witness:
  "ServeHTTP example_app silent_script example_env recorder_rw example_Request new_recorder
     = (new_recorder\<lparr>HeaderMap := [(''X-Seen'', ''1'')]\<rparr>,
        [(os_Stderr,
          ''127.0.0.1 - [01/Nov/2026:12:00:00 +0000] GET /ping HTTP/1.1 0 0 1500'' @ [CHR 0x0A])])"
proof -
  have l: "EnableLog example_app" and o: "Output example_app = os_Stderr"
    by (simp_all add: example_app_def New_def)
  have h: "header_codes (silent_script example_Request) = []"
    and b: "\<not> writes_body (silent_script example_Request)"
    by (simp_all add: silent_script_def)
  show ?thesis
    using access_log_of_silent_request [where rt = silent_script and r = example_Request
        and env = example_env and rw = recorder_rw and u = new_recorder, OF l h b]
    by (simp add: o silent_script_def log_fields_def showInt_examples
        example_env_def example_Request_def recorder_rw_def new_recorder_def)
qed

section \<open>Subrouters and the shared backing array\<close>

text \<open>
  C3. \<open>Subrouter\<close> copies the slice header of the middleware, not the backing array.
  After \<open>app.Use(a, b, c)\<close> the array has room for a fourth handler, so \<open>app.Use(d)\<close>
  writes \<open>d\<close> into it in place and \<open>s.Use(e)\<close> on the subrouter then writes \<open>e\<close> over \<open>d\<close>:
  the parent's chain reads \<open>a, b, c, e\<close>, and a request to a route of the parent runs \<open>e\<close>
  where \<open>d\<close> was registered. Only the calls of \<open>Use\<close> on one side alone leave the other
  side's chain as it was (\<open>Use_keeps_fresh_snapshot\<close>).
\<close>

theorem Use_on_subrouter_overwrites_parent:
  "slice_elems (arrays (snd parent_4)) (middleware (fst parent_4))
     = map Some [say ''a'', say ''b'', say ''c'', say ''d'']
   \<and> slice_elems (arrays (snd child_4)) (middleware (fst parent_4))
     = map Some [say ''a'', say ''b'', say ''c'', say ''e'']
   \<and> trace_of (makeHTTPRouterHandle (fst parent_4) (say ''h'') (snd child_4)
                 recorder_rw example_Request [] new_recorder)
     = map Invoked [say ''a'', say ''b'', say ''c'', say ''e'', say ''h'']"
proof -
  have p3: "parent_3 = (example_app\<lparr>middleware := \<lparr>Data = 2, Len = 3, Cap = 4\<rparr>\<rparr>,
      example_heap\<lparr>arrays := [[Some (say ''a'')], [Some (say ''a''), Some (say ''b'')],
        [Some (say ''a''), Some (say ''b''), Some (say ''c''), None]]\<rparr>)"
    by (simp add: parent_3_def example_app_def example_heap_def New_def nil_slice_def empty_heap_def
        append_slice_def slice_elems_def array_at_def go_growcap_def)
  have p4: "parent_4 = (example_app\<lparr>middleware := \<lparr>Data = 2, Len = 4, Cap = 4\<rparr>\<rparr>,
      example_heap\<lparr>arrays := [[Some (say ''a'')], [Some (say ''a''), Some (say ''b'')],
        [Some (say ''a''), Some (say ''b''), Some (say ''c''), Some (say ''d'')]]\<rparr>)"
    by (simp add: parent_4_def p3 append_slice_def array_at_def)
  have c4: "child_4 = (example_app\<lparr>middleware := \<lparr>Data = 2, Len = 4, Cap = 4\<rparr>, prefix := ''/s''\<rparr>,
      example_heap\<lparr>arrays := [[Some (say ''a'')], [Some (say ''a''), Some (say ''b'')],
        [Some (say ''a''), Some (say ''b''), Some (say ''c''), Some (say ''e'')]]\<rparr>)"
    by (simp add: child_4_def child_3_def Subrouter_def p3 p4 append_slice_def array_at_def
        example_app_def New_def)
  have s: "\<And>t. say t (new_Context (example_app\<lparr>middleware := \<lparr>Data = 2, Len = 4, Cap = 4\<rparr>\<rparr>)
                recorder_rw example_Request []) = (\<lambda>s. (None, snd (recorder_Write t s)))"
    by (rule ext) (simp add: say_def new_Context_def recorder_rw_def)
  show ?thesis
    by (simp add: p4 c4 slice_elems_def array_at_def makeHTTPRouterHandle_unfold s trace_of_def)
qed

section \<open>Prefixes and registered paths\<close>













section \<open>Context operations on the writer\<close>

lemma Text_calls:
  "Text c code txt s =
     (None, run_calls (response c)
        [CallHeaderSet ''Content-Type'' ''text/plain'', CallWriteHeader code, CallWrite txt] s)"
  by (simp add: Text_def Let_def)


text \<open>
  C5. \<open>Redirect\<close> returns the error \<open>invalid redirect code\<close>, and leaves the writer alone,
  exactly when the code is below 300 or above 307. For a code from 300 to 307 it calls
  \<open>http.Redirect\<close> and returns nil, whatever that call does to the writer. So the code
  200 is refused and the code 302 succeeds.
\<close>

theorem Redirect_validates_code:
  "(fst (Redirect hr c url code s) = Some (errors_New ''invalid redirect code'')
      \<longleftrightarrow> code < 300 \<or> 307 < code)
   \<and> (300 \<le> code \<and> code \<le> 307
        \<longrightarrow> Redirect hr c url code s = (None, hr (response c) (request c) url code s))
   \<and> (code < 300 \<or> 307 < code
        \<longrightarrow> Redirect hr c url code s = (Some (errors_New ''invalid redirect code''), s))
   \<and> Redirect hr c url 200 s = (Some (errors_New ''invalid redirect code''), s)
   \<and> Redirect hr c url 302 s = (None, hr (response c) (request c) url 302 s)"
  by (simp add: Redirect_def StatusMultipleChoices_def StatusTemporaryRedirect_def)

theorem Redirect_validates_code_witness:
  "Redirect example_Redirect example_Context ''/login'' 302 new_recorder
     = (None, \<lparr>HeaderMap = [(''Location'', ''/login'')], wroteHeader = True, Code = 302,
               sentHeader = [(''Location'', ''/login'')], Body = []\<rparr>)
   \<and> Redirect example_Redirect example_Context ''/login'' 200 new_recorder
     = (Some (errors_New ''invalid redirect code''), new_recorder)"
  using Redirect_validates_code [of example_Redirect example_Context "''/login''" 302 new_recorder]
    Redirect_validates_code [of example_Redirect example_Context "''/login''" 200 new_recorder]
  by (simp add: example_Redirect_def example_Context_def new_Context_def recorder_rw_def
      recorder_WriteHeader_def new_recorder_def)

text \<open>
  C6, as stated, fails. On a Context of an application on which \<open>SetTemplateEngine\<close> was
  never called, \<open>Render\<close> panics on the nil interface; it does not return an error
  \<open>no renderer configured\<close>.
\<close>

theorem Render_without_renderer_panics:
  "Render (new_Context (fst (New std_http_Error empty_heap)) recorder_rw example_Request [])
      ''index'' () new_recorder = Inl NilDereference
   \<and> Render (new_Context (fst (New std_http_Error empty_heap)) recorder_rw example_Request [])
      ''index'' () new_recorder \<noteq> Inr (Some (errors_New ''no renderer configured''), new_recorder)"
  by (simp add: Render_def new_Context_def New_def)

text \<open>
  C6, amended. When the application has no renderer, \<open>Render\<close> panics with a nil
  dereference and returns no error value. When a renderer \<open>t\<close> is installed with
  \<open>SetTemplateEngine\<close>, \<open>Render\<close> returns what \<open>t\<close> returns for the response writer, the name
  and the data, so it fails exactly when that call fails.
\<close>

theorem Render_delegates_to_renderer:
  "(templateEngine w = None
      \<longrightarrow> Render (new_Context w rw r params) name data s = Inl NilDereference)
   \<and> Render (new_Context (SetTemplateEngine w (Some t)) rw r params) name data s
       = Inr (t rw name data s)
   \<and> (\<exists>e. fst (t rw name data s) = Some e) =
       (\<exists>e s'. Render (new_Context (SetTemplateEngine w (Some t)) rw r params) name data s
                 = Inr (Some e, s'))"
  by (cases "t rw name data s") (simp add: Render_def new_Context_def SetTemplateEngine_def)

theorem Render_delegates_to_renderer_witness:
  "Render example_Context ''index'' () new_recorder = Inl NilDereference
   \<and> Render (new_Context (SetTemplateEngine example_app (Some example_renderer)) recorder_rw
              example_Request []) ''index'' () new_recorder
       = Inr (None, new_recorder\<lparr>wroteHeader := True, Code := 200, Body := ''index''\<rparr>)
   \<and> Render (new_Context (SetTemplateEngine example_app (Some example_renderer)) recorder_rw
              example_Request []) ''missing'' () new_recorder
       = Inr (Some (errors_New ''template not found''), new_recorder)"
proof -
  have n: "templateEngine example_app = None"
    by (simp add: example_app_def New_def)
  show ?thesis
    using Render_delegates_to_renderer [of example_app recorder_rw example_Request "[]" "''index''"
        "()" new_recorder example_renderer]
      Render_delegates_to_renderer [of example_app recorder_rw example_Request "[]" "''missing''"
        "()" new_recorder example_renderer] n
    by (simp add: example_Context_def example_renderer_def recorder_rw_def recorder_Write_def
        recorder_WriteHeader_def new_recorder_def StatusOK_def)
qed

text \<open>
  C7. \<open>JSON\<close> first sets the header \<open>Content-Type\<close> to \<open>application/json\<close>, then writes the
  status header with the code, then hands the value to the encoder. When the value is
  encoded, the encoding goes to the body in one \<open>Write\<close> after these two calls, and the
  error of that \<open>Write\<close> is returned. When the value cannot be encoded, the error is
  returned and the writer is left as the status write left it: the failure comes after
  the status is sent and does not touch it.
\<close>

theorem JSON_header_status_body:
  "(encode v = Inr b \<longrightarrow>
      JSON encode c code v s
        = (snd (fst (Write (response c) b
               (run_calls (response c)
                  [CallHeaderSet ''Content-Type'' ''application/json'', CallWriteHeader code] s))),
           run_calls (response c)
             [CallHeaderSet ''Content-Type'' ''application/json'', CallWriteHeader code, CallWrite b] s))
   \<and> (encode v = Inl e \<longrightarrow>
        JSON encode c code v s
          = (Some e,
             run_calls (response c)
               [CallHeaderSet ''Content-Type'' ''application/json'', CallWriteHeader code] s))"
  by (simp add: JSON_def json_Encode_def Let_def split: prod.splits)

theorem JSON_header_status_body_witness:
  "JSON example_encode example_Context 201 (Some (''a'', 1)) new_recorder
     = (None, \<lparr>HeaderMap = [(''Content-Type'', ''application/json'')], wroteHeader = True,
               Code = 201, sentHeader = [(''Content-Type'', ''application/json'')],
               Body = ''{'' @ [CHR 0x22] @ ''a'' @ [CHR 0x22] @ '':1}'' @ [CHR 0x0A]\<rparr>)
   \<and> JSON example_encode example_Context 201 None new_recorder
     = (Some (errors_New ''json: unsupported type''),
        \<lparr>HeaderMap = [(''Content-Type'', ''application/json'')], wroteHeader = True,
         Code = 201, sentHeader = [(''Content-Type'', ''application/json'')], Body = []\<rparr>)"
proof -
  have one: "showInt 1 = ''1''"
    by (simp add: showInt_def showNat.simps)
  have a: "example_encode (Some (''a'', 1))
      = Inr (''{'' @ [CHR 0x22] @ ''a'' @ [CHR 0x22] @ '':1}'' @ [CHR 0x0A])"
    by (simp add: example_encode_def one)
  have b: "example_encode None = Inl (errors_New ''json: unsupported type'')"
    by (simp add: example_encode_def)
  show ?thesis
    using JSON_header_status_body [where encode = example_encode and v = "Some (''a'', 1)"
        and b = "''{'' @ [CHR 0x22] @ ''a'' @ [CHR 0x22] @ '':1}'' @ [CHR 0x0A]"
        and c = example_Context and code = 201 and s = new_recorder]
      JSON_header_status_body [where encode = example_encode and v = None
        and e = "errors_New ''json: unsupported type''"
        and c = example_Context and code = 201 and s = new_recorder] a b
    by (simp add: example_Context_def new_Context_def recorder_rw_def recorder_Write_def
        recorder_WriteHeader_def new_recorder_def)
qed

section \<open>The application \<open>New\<close> returns\<close>

text \<open>
  C9. The application \<open>New\<close> returns has the empty prefix, a router that was not in the
  store before and has no routes, logging enabled, the standard error stream as log sink,
  no middleware, and the default error handler; for every Context and failure that
  handler replies through \<open>http.Error\<close>, on the response writer of the Context, with the
  message of the failure and the status 500.
\<close>

theorem New_defaults:
  "prefix (fst (New he \<sigma>)) = []
   \<and> \<not> router (fst (New he \<sigma>)) < length (routers \<sigma>)
   \<and> router (fst (New he \<sigma>)) < length (routers (snd (New he \<sigma>)))
   \<and> array_at (routers (snd (New he \<sigma>))) (router (fst (New he \<sigma>))) = []
   \<and> take (length (routers \<sigma>)) (routers (snd (New he \<sigma>))) = routers \<sigma>
   \<and> arrays (snd (New he \<sigma>)) = arrays \<sigma>
   \<and> EnableLog (fst (New he \<sigma>))
   \<and> Output (fst (New he \<sigma>)) = os_Stderr
   \<and> middleware (fst (New he \<sigma>)) = nil_slice
   \<and> ErrorHandler (fst (New he \<sigma>)) = defaultErrorHandler he
   \<and> ErrorHandler (fst (New he \<sigma>)) ctx err s = he (response ctx) (Error err) 500 s"
  by (simp add: New_def defaultErrorHandler_def StatusInternalServerError_def array_at_def)

end
